theory Spec2Isabelle
  imports Main "HOL-Library.Word"
begin

section \<open>Motor queue, daily quota and admin shutdown of the Go MQTT backend\<close>

text \<open>
  The repository holds two revisions of the package \<^verbatim>\<open>handlers\<close>, file \<^verbatim>\<open>mqtt.go\<close>:
  \<^item> \<^verbatim>\<open>src/unnamed/part_005\<close>, the revision with the admin shutdown, whose motor
    control is commented out; its functions keep their names here;
  \<^item> \<^verbatim>\<open>src/handlers/mqtt.go\<close>, the revision that logs a \<^verbatim>\<open>DeviceActivation\<close> and
    drives the motor; its functions carry the suffix \<open>_mqtt\<close>.
  Both work on the same package-level variables, which are the fields of one record;
  the logging revision does not declare the four shutdown variables, and its functions
  neither read nor write them.
\<close>

subsection \<open>Go values\<close>

text \<open>
  \<^verbatim>\<open>time.Duration\<close> is an \<^verbatim>\<open>int64\<close> count of nanoseconds: \<open>+\<close> and \<open>*\<close> wrap around,
  comparisons are signed (\<open><s\<close>). \<^verbatim>\<open>int\<close> and \<^verbatim>\<open>uint\<close> are taken at 64 bits.
  A \<^verbatim>\<open>time.Time\<close> is an instant, here the number of nanoseconds since the zero
  value \<^verbatim>\<open>time.Time{}\<close>.
\<close>

type_synonym duration = "64 word"
type_synonym uint = "64 word"
type_synonym time = int

definition Second :: duration where
  "Second = 1000000000"

definition Minute :: duration where
  "Minute = 60 * Second"

definition Hour :: duration where
  "Hour = 60 * Minute"

text \<open>\<^verbatim>\<open>t.After(u)\<close> and \<^verbatim>\<open>t.Add(d)\<close> of package \<^verbatim>\<open>time\<close>.\<close>

definition After :: "time \<Rightarrow> time \<Rightarrow> bool" where
  "After t u = (u < t)"

definition Add :: "time \<Rightarrow> duration \<Rightarrow> time" where
  "Add t d = t + sint d"

definition zero_time :: time where
  "zero_time = 0"

subsection \<open>Data model\<close>

record MotorRequest =
  UserID :: uint
  RequestAt :: time
  Duration :: duration

text \<open>\<^verbatim>\<open>models.User\<close> and \<^verbatim>\<open>models.DeviceActivation\<close>; the rows of the two tables.
  The primary key of an activation is given by the database and is left out.\<close>

record User =
  ID :: uint
  Email :: string
  Password :: string
  Role :: string

record DeviceActivation =
  da_UserID :: uint
  da_RequestAt :: time
  da_Duration :: duration

text \<open>The package-level variables of \<^verbatim>\<open>handlers\<close>, and the two tables behind
  \<^verbatim>\<open>database.DB\<close>. The channel \<^verbatim>\<open>motorQueue\<close> is its buffer, oldest request first.\<close>

record state =
  motorQueue :: "MotorRequest list"
  totalMotorTime :: duration
  quotaResetTime :: time
  isShutdown :: bool
  shutdownReason :: string
  shutdownBy :: string
  shutdownAt :: time
  db_users :: "User list"
  db_device_activations :: "DeviceActivation list"

definition motorQueue_cap :: nat where
  "motorQueue_cap = 100"

definition motorQuota :: duration where
  "motorQuota = 1 * Hour"

subsection \<open>Requests, responses and effects\<close>

text \<open>
  What \<^verbatim>\<open>c.ShouldBindJSON\<close> (gin, not part of the repository) finds in the body for
  the one field of the input struct: a body that does not decode into the struct, a body
  without the member (or with \<^verbatim>\<open>null\<close>), or the member's value.
\<close>

datatype 'a json_body = BadJSON | Missing | Member 'a

datatype bind_error = DecodeError | RequiredError

text \<open>
  \<^verbatim>\<open>Duration int `json:"duration" binding:"required"`\<close>: an integer outside \<^verbatim>\<open>int64\<close>
  does not decode; \<^verbatim>\<open>required\<close> fails on the zero value, so on a missing member and on 0.
\<close>

definition ShouldBindJSON_duration :: "int json_body \<Rightarrow> bind_error + 64 word" where
  "ShouldBindJSON_duration b =
     (case b of
        BadJSON \<Rightarrow> Inl DecodeError
      | Missing \<Rightarrow> Inl RequiredError
      | Member n \<Rightarrow>
          if n < - (2 ^ 63) \<or> 2 ^ 63 \<le> n then Inl DecodeError
          else if n = 0 then Inl RequiredError
          else Inr (word_of_int n))"

text \<open>\<^verbatim>\<open>Reason string `json:"reason" binding:"required"`\<close>.\<close>

definition ShouldBindJSON_reason :: "string json_body \<Rightarrow> bind_error + string" where
  "ShouldBindJSON_reason b =
     (case b of
        BadJSON \<Rightarrow> Inl DecodeError
      | Missing \<Rightarrow> Inl RequiredError
      | Member r \<Rightarrow> if r = [] then Inl RequiredError else Inr r)"

text \<open>A value stored in the gin context by the middleware: a \<^verbatim>\<open>uint\<close>, a
  \<^verbatim>\<open>float64\<close> holding a JWT number (a whole, non-negative one), or something else.\<close>

datatype ctx_value = VUint uint | VFloat64 nat | VOther

record 'a Context =
  body :: "'a json_body"
  keys :: "(string \<times> ctx_value) list"

definition Get :: "'a Context \<Rightarrow> string \<Rightarrow> ctx_value option" where
  "Get c k = map_of (keys c) k"

text \<open>The values of a \<^verbatim>\<open>gin.H\<close>, and what a handler run ends with: the JSON response,
  a send on the full channel that has not returned, or a panic.\<close>

datatype jval = S string | T time | E bind_error

datatype outcome = JSON nat "(string \<times> jval) list" | Blocked | Panic

text \<open>The effects on the collaborators, in program order.\<close>

datatype event =
    Publish string string
  | Sleep duration
  | DB_Create DeviceActivation bool
  | ChanSend MotorRequest

record result =
  reply :: outcome
  trace :: "event list"
  after :: state

subsection \<open>The quota window\<close>

text \<open>
  The block that all four quota checks begin with:
  \<^verbatim>\<open>if time.Now().After(quotaResetTime) { totalMotorTime = 0;
       quotaResetTime = time.Now().Add(24 * time.Hour) }\<close>.
  The two calls of \<^verbatim>\<open>time.Now()\<close> are two readings of the clock.
\<close>

definition quota_window :: "time \<Rightarrow> time \<Rightarrow> state \<Rightarrow> state" where
  "quota_window now1 now2 s =
     (if After now1 (quotaResetTime s)
      then s\<lparr>totalMotorTime := 0, quotaResetTime := Add now2 (24 * Hour)\<rparr>
      else s)"

subsection \<open>The revision with the admin shutdown\<close>

text \<open>
  \<^verbatim>\<open>EnqueueMotorRequest\<close>. \<open>now1\<close>, \<open>now2\<close> and \<open>now3\<close> are the readings of the clock in
  program order. The send \<^verbatim>\<open>motorQueue <- req\<close> returns when the buffer has room and
  blocks when it holds 100 requests.
\<close>

definition EnqueueMotorRequest ::
    "time \<Rightarrow> time \<Rightarrow> time \<Rightarrow> int Context \<Rightarrow> state \<Rightarrow> result" where
  "EnqueueMotorRequest now1 now2 now3 c s =
     (if isShutdown s then
        \<lparr>reply = JSON 503
           [(''error'', S ''Motor system is currently shut down''),
            (''reason'', S (shutdownReason s)),
            (''shutdown_by'', S (shutdownBy s)),
            (''shutdown_at'', T (shutdownAt s))],
         trace = [], after = s\<rparr>
      else case ShouldBindJSON_duration (body c) of
        Inl err \<Rightarrow> \<lparr>reply = JSON 400 [(''error'', E err)], trace = [], after = s\<rparr>
      | Inr n \<Rightarrow>
          let s1 = quota_window now1 now2 s in
          if motorQuota <s totalMotorTime s1 + n * Second then
            \<lparr>reply = JSON 429
               [(''error'', S ''Daily motor-on quota reached. Try again after 24 hours.'')],
             trace = [], after = s1\<rparr>
          else
            let req = \<lparr>UserID = 0, RequestAt = now3, Duration = n * Second\<rparr> in
            if length (motorQueue s1) < motorQueue_cap then
              \<lparr>reply = JSON 200 [(''message'', S ''Request queued'')],
               trace = [ChanSend req],
               after = s1\<lparr>motorQueue := motorQueue s1 @ [req]\<rparr>\<rparr>
            else \<lparr>reply = Blocked, trace = [], after = s1\<rparr>)"

text \<open>
  One iteration of the loop of \<^verbatim>\<open>processMotorQueue\<close>, for the request \<open>req\<close> it has
  received. The three lines that publish and sleep are comments in this revision.
\<close>

definition processMotorQueue_body ::
    "time \<Rightarrow> time \<Rightarrow> MotorRequest \<Rightarrow> state \<Rightarrow> state \<times> event list" where
  "processMotorQueue_body now1 now2 req s =
     (if isShutdown s then (s, [])
      else
        let s1 = quota_window now1 now2 s in
        if motorQuota <s totalMotorTime s1 + Duration req then (s1, [])
        else (s1\<lparr>totalMotorTime := totalMotorTime s1 + Duration req\<rparr>, []))"

text \<open>
  \<^verbatim>\<open>for req := range motorQueue\<close>: the loop receives the oldest request and waits on
  the empty channel. The list gives the clock readings of the iterations that are
  observed, one pair for each.
\<close>

fun processMotorQueue :: "(time \<times> time) list \<Rightarrow> state \<Rightarrow> state \<times> event list" where
  "processMotorQueue [] s = (s, [])"
| "processMotorQueue ((now1, now2) # clk) s =
     (case motorQueue s of
        [] \<Rightarrow> (s, [])
      | req # rest \<Rightarrow>
          let (s1, ev) = processMotorQueue_body now1 now2 req (s\<lparr>motorQueue := rest\<rparr>);
              (s2, evs) = processMotorQueue clk s1
          in (s2, ev @ evs))"

text \<open>\<^verbatim>\<open>database.DB.First(&user, id)\<close>: the row with that primary key.\<close>

definition DB_First :: "User list \<Rightarrow> uint \<Rightarrow> User option" where
  "DB_First tbl i = find (\<lambda>u. ID u = i) tbl"

text \<open>\<^verbatim>\<open>AdminForceShutdown\<close>; \<open>now\<close> is the reading for \<^verbatim>\<open>shutdownAt\<close>.\<close>

definition AdminForceShutdown :: "time \<Rightarrow> string Context \<Rightarrow> state \<Rightarrow> result" where
  "AdminForceShutdown now c s =
     (case ShouldBindJSON_reason (body c) of
        Inl err \<Rightarrow> \<lparr>reply = JSON 400 [(''error'', E err)], trace = [], after = s\<rparr>
      | Inr reason \<Rightarrow>
         (case Get c ''user_id'' of
            None \<Rightarrow>
              \<lparr>reply = JSON 401 [(''error'', S ''user ID not found in token'')],
               trace = [], after = s\<rparr>
          | Some (VFloat64 userID) \<Rightarrow>
             (case DB_First (db_users s) (word_of_nat userID) of
                None \<Rightarrow>
                  \<lparr>reply = JSON 401 [(''error'', S ''user not found'')],
                   trace = [], after = s\<rparr>
              | Some user \<Rightarrow>
                  let s1 = s\<lparr>isShutdown := True, shutdownReason := reason,
                             shutdownBy := Email user, shutdownAt := now\<rparr>
                  in \<lparr>reply = JSON 200
                        [(''message'', S ''Motor system shut down successfully''),
                         (''reason'', S (shutdownReason s1)),
                         (''shutdown_by'', S (shutdownBy s1)),
                         (''shutdown_at'', T (shutdownAt s1))],
                      trace = [Publish ''motor/control'' ''off''],
                      after = s1\<rparr>)
          | Some _ \<Rightarrow>
              \<lparr>reply = JSON 401 [(''error'', S ''invalid user ID format'')],
               trace = [], after = s\<rparr>))"

text \<open>\<^verbatim>\<open>AdminRestart\<close>; \<open>now\<close> is the reading for \<^verbatim>\<open>restart_at\<close>.\<close>

definition AdminRestart :: "time \<Rightarrow> state \<Rightarrow> result" where
  "AdminRestart now s =
     \<lparr>reply = JSON 200
        [(''message'', S ''Motor system restarted successfully''),
         (''restart_at'', T now)],
      trace = [],
      after = s\<lparr>isShutdown := False, shutdownReason := [],
                 shutdownBy := [], shutdownAt := zero_time\<rparr>\<rparr>"

text \<open>\<^verbatim>\<open>init\<close>: the variables have their zero values, the first window ends 24 hours
  after the start. \<open>tbl\<close> is the table of users that the database holds.\<close>

definition init :: "time \<Rightarrow> User list \<Rightarrow> state" where
  "init now tbl =
     \<lparr>motorQueue = [], totalMotorTime = 0, quotaResetTime = Add now (24 * Hour),
      isShutdown = False, shutdownReason = [], shutdownBy = [], shutdownAt = zero_time,
      db_users = tbl, db_device_activations = []\<rparr>"

subsection \<open>The revision with the activation log\<close>

text \<open>
  \<^verbatim>\<open>EnqueueMotorRequest\<close> of \<^verbatim>\<open>src/handlers/mqtt.go\<close>; the duration is in minutes.
  \<open>now1\<close> to \<open>now4\<close> are the readings of the clock in program order, \<open>db_ok\<close> tells
  whether \<^verbatim>\<open>database.DB.Create\<close> returns without an error. The type assertion
  \<^verbatim>\<open>userID.(uint)\<close> panics on a value of another type.
\<close>

definition EnqueueMotorRequest_mqtt ::
    "time \<Rightarrow> time \<Rightarrow> time \<Rightarrow> time \<Rightarrow> bool \<Rightarrow> int Context \<Rightarrow> state \<Rightarrow> result" where
  "EnqueueMotorRequest_mqtt now1 now2 now3 now4 db_ok c s =
     (case ShouldBindJSON_duration (body c) of
        Inl err \<Rightarrow> \<lparr>reply = JSON 400 [(''error'', E err)], trace = [], after = s\<rparr>
      | Inr n \<Rightarrow>
          let s1 = quota_window now1 now2 s in
          if motorQuota <s totalMotorTime s1 + n * Minute then
            \<lparr>reply = JSON 429
               [(''error'', S ''Daily motor-on quota reached. Try again after 24 hours.'')],
             trace = [], after = s1\<rparr>
          else
           (case Get c ''userID'' of
              None \<Rightarrow>
                \<lparr>reply = JSON 401 [(''error'', S ''user ID not found in token'')],
                 trace = [], after = s1\<rparr>
            | Some (VUint userID) \<Rightarrow>
                let logEntry = \<lparr>da_UserID = userID, da_RequestAt = now3,
                                da_Duration = n * Minute\<rparr>
                in
                if \<not> db_ok then
                  \<lparr>reply = JSON 500 [(''error'', S ''failed to log request'')],
                   trace = [DB_Create logEntry False], after = s1\<rparr>
                else
                  let s2 = s1\<lparr>db_device_activations :=
                                 db_device_activations s1 @ [logEntry]\<rparr>;
                      req = \<lparr>UserID = 0, RequestAt = now4, Duration = n * Minute\<rparr>
                  in
                  if length (motorQueue s2) < motorQueue_cap then
                    \<lparr>reply = JSON 200 [(''message'', S ''Request queued'')],
                     trace = [DB_Create logEntry True, ChanSend req],
                     after = s2\<lparr>motorQueue := motorQueue s2 @ [req]\<rparr>\<rparr>
                  else
                    \<lparr>reply = Blocked, trace = [DB_Create logEntry True], after = s2\<rparr>
            | Some _ \<Rightarrow> \<lparr>reply = Panic, trace = [], after = s1\<rparr>))"

text \<open>The motor control logic: \<^verbatim>\<open>mqtt.Publish("motor/control", "on")\<close>,
  \<^verbatim>\<open>time.Sleep(req.Duration)\<close>, \<^verbatim>\<open>mqtt.Publish("motor/control", "off")\<close>. The error
  that \<^verbatim>\<open>Publish\<close> may return is dropped by the caller.\<close>

definition motor_control :: "MotorRequest \<Rightarrow> event list" where
  "motor_control req =
     [Publish ''motor/control'' ''on'',
      Sleep (Duration req),
      Publish ''motor/control'' ''off'']"

text \<open>One iteration of the loop of \<^verbatim>\<open>processMotorQueue\<close> of \<^verbatim>\<open>src/handlers/mqtt.go\<close>:
  no check, the time is added and the motor is driven.\<close>

definition processMotorQueue_body_mqtt ::
    "time \<Rightarrow> time \<Rightarrow> MotorRequest \<Rightarrow> state \<Rightarrow> state \<times> event list" where
  "processMotorQueue_body_mqtt now1 now2 req s =
     (let s1 = quota_window now1 now2 s in
      (s1\<lparr>totalMotorTime := totalMotorTime s1 + Duration req\<rparr>, motor_control req))"

fun processMotorQueue_mqtt ::
    "(time \<times> time) list \<Rightarrow> state \<Rightarrow> state \<times> event list" where
  "processMotorQueue_mqtt [] s = (s, [])"
| "processMotorQueue_mqtt ((now1, now2) # clk) s =
     (case motorQueue s of
        [] \<Rightarrow> (s, [])
      | req # rest \<Rightarrow>
          let (s1, ev) = processMotorQueue_body_mqtt now1 now2 req (s\<lparr>motorQueue := rest\<rparr>);
              (s2, evs) = processMotorQueue_mqtt clk s1
          in (s2, ev @ evs))"

subsection \<open>Scenarios\<close>

text \<open>The states and requests at which the properties below are evaluated. The program
  starts at time 0; the first window ends at 86400000000000.\<close>

text \<open>A system that was shut down for maintenance while one request was waiting.\<close>

definition shut :: state where
  "shut = (init 0 [])
     \<lparr>motorQueue := [\<lparr>UserID = 0, RequestAt = 5, Duration = 60 * Second\<rparr>],
      isShutdown := True, shutdownReason := ''maintenance'', shutdownBy := ''opA'',
      shutdownAt := 7\<rparr>"

text \<open>Fifty minutes of the hour are used.\<close>

definition used_50min :: state where
  "used_50min = (init 0 [])\<lparr>totalMotorTime := 50 * Minute\<rparr>"

text \<open>A request for one second was admitted and then handled by the processor.\<close>

definition one_second_run :: state where
  "one_second_run =
     fst (processMotorQueue [(20, 21)]
       (after (EnqueueMotorRequest 10 11 12 \<lparr>body = Member 1, keys = []\<rparr> (init 0 []))))"

text \<open>Requests of user 7: for 60 units of time, and for 20 minutes given in seconds.\<close>

definition ctx60 :: "int Context" where
  "ctx60 = \<lparr>body = Member 60, keys = [(''userID'', VUint 7)]\<rparr>"

definition ctx20min :: "int Context" where
  "ctx20min = \<lparr>body = Member 1200, keys = []\<rparr>"

text \<open>The administrator \<open>opA\<close>, the request to shut down for maintenance, and a
  request for ten minutes given in seconds.\<close>

definition admin :: User where
  "admin = \<lparr>ID = 1, Email = ''opA'', Password = ''hash'', Role = ''admin''\<rparr>"

definition ctx_shutdown :: "string Context" where
  "ctx_shutdown = \<lparr>body = Member ''maintenance'', keys = [(''user_id'', VFloat64 1)]\<rparr>"

definition ctx10min :: "int Context" where
  "ctx10min = \<lparr>body = Member 600, keys = []\<rparr>"

text \<open>Two requests are waiting in the queue.\<close>

definition two_waiting :: state where
  "two_waiting = (init 0 [])
     \<lparr>motorQueue := [\<lparr>UserID = 0, RequestAt = 5, Duration = 60 * Second\<rparr>,
                     \<lparr>UserID = 0, RequestAt = 6, Duration = 30 * Second\<rparr>]\<rparr>"

text \<open>Request A of user 7 for 10 units of time, request B of user 8 for 20.\<close>

definition ctx10 :: "int Context" where
  "ctx10 = \<lparr>body = Member 10, keys = [(''userID'', VUint 7)]\<rparr>"

definition ctx20 :: "int Context" where
  "ctx20 = \<lparr>body = Member 20, keys = [(''userID'', VUint 8)]\<rparr>"

text \<open>
  Requests for one second that arrive one after the other while the processor takes
  nothing from the queue: the answers of \<open>k\<close> calls of \<^verbatim>\<open>EnqueueMotorRequest\<close> and the
  state they leave. \<open>full_queue\<close> is the state with 100 of them in the buffer.
\<close>

definition ctx1 :: "int Context" where
  "ctx1 = \<lparr>body = Member 1, keys = []\<rparr>"

fun submit_rapidly :: "nat \<Rightarrow> state \<Rightarrow> outcome list \<times> state" where
  "submit_rapidly 0 s = ([], s)"
| "submit_rapidly (Suc k) s =
     (let r = EnqueueMotorRequest 10 11 12 ctx1 s;
          (rs, s') = submit_rapidly k (after r)
      in (reply r # rs, s'))"

definition full_queue :: state where
  "full_queue = (init 0 [])
     \<lparr>motorQueue := replicate 100 \<lparr>UserID = 0, RequestAt = 12, Duration = Second\<rparr>\<rparr>"

section \<open>Properties\<close>

lemma processMotorQueue_body_shutdown:
  "isShutdown s \<Longrightarrow> processMotorQueue_body now1 now2 req s = (s, [])"
  by (simp add: processMotorQueue_body_def)

lemma processMotorQueue_shutdown:
  "isShutdown s \<Longrightarrow>
   processMotorQueue clk s = (s\<lparr>motorQueue := drop (length clk) (motorQueue s)\<rparr>, [])"
proof (induction clk arbitrary: s)
  case Nil
  then show ?case by simp
next
  case (Cons t clk)
  obtain now1 now2 where t: "t = (now1, now2)" by (cases t)
  show ?case
  proof (cases "motorQueue s")
    case Nil
    then show ?thesis by (simp add: t)
  next
    case (Cons req rest)
    have "isShutdown (s\<lparr>motorQueue := rest\<rparr>)" using Cons.prems by simp
    then show ?thesis
      using Cons.IH [of "s\<lparr>motorQueue := rest\<rparr>"] Cons
      by (simp add: t processMotorQueue_body_shutdown)
  qed
qed

lemma day_ns: "sint (24 * Hour) = 86400000000000"
  by (simp add: Hour_def Minute_def Second_def)

lemma quota_ns: "sint motorQuota = 3600000000000"
  by (simp add: motorQuota_def Hour_def Minute_def Second_def)

subsection \<open>Shutdown overrides admission and processing\<close>

text \<open>
  Claim C1. While \<open>isShutdown\<close> is set, \<^verbatim>\<open>EnqueueMotorRequest\<close> answers 503 with the
  reason, the initiator and the time of the shutdown, whatever the body and the quota are;
  it leaves every variable as it was and sends nothing to the queue. An iteration of
  \<^verbatim>\<open>processMotorQueue\<close> drops the request it received: no command is published and the
  quota is not touched, so a run of the loop over requests that were queued before the
  shutdown only empties the queue and leaves the flag set.
\<close>

theorem shutdown_overrides:
  assumes "isShutdown s"
  shows "EnqueueMotorRequest now1 now2 now3 c s =
           \<lparr>reply = JSON 503
              [(''error'', S ''Motor system is currently shut down''),
               (''reason'', S (shutdownReason s)),
               (''shutdown_by'', S (shutdownBy s)),
               (''shutdown_at'', T (shutdownAt s))],
            trace = [], after = s\<rparr>
       \<and> processMotorQueue_body t1 t2 req s = (s, [])
       \<and> processMotorQueue clk s =
           (s\<lparr>motorQueue := drop (length clk) (motorQueue s)\<rparr>, [])"
  using assms
  by (simp add: EnqueueMotorRequest_def processMotorQueue_body_shutdown
      processMotorQueue_shutdown)

theorem shutdown_overrides_witness:
  "isShutdown shut
   \<and> EnqueueMotorRequest 10 11 12 \<lparr>body = Member 60, keys = []\<rparr> shut =
       \<lparr>reply = JSON 503
          [(''error'', S ''Motor system is currently shut down''),
           (''reason'', S ''maintenance''),
           (''shutdown_by'', S ''opA''),
           (''shutdown_at'', T 7)],
        trace = [], after = shut\<rparr>
   \<and> processMotorQueue [(20, 21)] shut = (shut\<lparr>motorQueue := []\<rparr>, [])"
proof -
  have h: "isShutdown shut" by (simp add: shut_def)
  show ?thesis
    using h shutdown_overrides [OF h, of 10 11 12 "\<lparr>body = Member 60, keys = []\<rparr>" 20 21
        "\<lparr>UserID = 0, RequestAt = 5, Duration = 60 * Second\<rparr>" "[(20, 21)]"]
    by (simp add: shut_def)
qed

lemmas eval_defs = EnqueueMotorRequest_def EnqueueMotorRequest_mqtt_def
  ShouldBindJSON_duration_def quota_window_def After_def Add_def init_def motorQuota_def
  Hour_def Minute_def Second_def motorQueue_cap_def processMotorQueue_body_def
  processMotorQueue_body_mqtt_def motor_control_def Get_def
  word_sless_alt word_sle_eq Let_def zero_time_def

lemma not_sless_iff: "(\<not> a <s b) = (b \<le>s a)"
  by (simp add: word_sless_alt word_sle_eq not_less)

lemma one_second_run_eq: "one_second_run = (init 0 [])\<lparr>totalMotorTime := Second\<rparr>"
  by (simp add: one_second_run_def eval_defs)

subsection \<open>Admission within the quota\<close>

text \<open>
  Claim C2, as the claim states it, fails: a request for 60 seconds is admitted by the
  fresh system, the sum is within the limit, and the counter stays 0 instead of rising
  by the duration.
\<close>

theorem admission_charges_counterexample:
  "reply (EnqueueMotorRequest 10 11 12 \<lparr>body = Member 60, keys = []\<rparr> (init 0 [])) =
     JSON 200 [(''message'', S ''Request queued'')]
   \<and> totalMotorTime (quota_window 10 11 (init 0 [])) + 60 * Second \<le>s motorQuota
   \<and> totalMotorTime
        (after (EnqueueMotorRequest 10 11 12 \<lparr>body = Member 60, keys = []\<rparr> (init 0 [])))
       \<noteq> totalMotorTime (quota_window 10 11 (init 0 [])) + 60 * Second"
  by (simp add: eval_defs)

text \<open>
  Claim C2, amended. Let the body bind to the duration \<open>n\<close> and the queue have room. If
  the counter, after the lazy reset, plus the duration (the \<^verbatim>\<open>time.Duration\<close> sum that
  the code forms) does not exceed \<open>motorQuota\<close>, the request is admitted: the answer is
  200, exactly one \<^verbatim>\<open>MotorRequest\<close> with that duration is sent to the tail of the queue,
  and the counter is what the lazy reset left; admission adds nothing to it. In the
  shutdown revision this needs \<open>isShutdown\<close> to be clear, in the logging revision a
  \<^verbatim>\<open>uint\<close> user id in the context and a database write that succeeds. The duration is
  added to the counter by the processor, when it handles the request: after its own
  check in the shutdown revision, without a check in the logging revision.
\<close>

theorem admission_within_quota:
  assumes bind: "ShouldBindJSON_duration (body c) = Inr n"
      and room: "length (motorQueue s) < motorQueue_cap"
  shows "(\<not> isShutdown s
           \<and> totalMotorTime (quota_window now1 now2 s) + n * Second \<le>s motorQuota \<longrightarrow>
          EnqueueMotorRequest now1 now2 now3 c s =
            \<lparr>reply = JSON 200 [(''message'', S ''Request queued'')],
             trace = [ChanSend \<lparr>UserID = 0, RequestAt = now3, Duration = n * Second\<rparr>],
             after = (quota_window now1 now2 s)
               \<lparr>motorQueue := motorQueue s @
                  [\<lparr>UserID = 0, RequestAt = now3, Duration = n * Second\<rparr>]\<rparr>\<rparr>)
       \<and> (totalMotorTime (quota_window now1 now2 s) + n * Minute \<le>s motorQuota
           \<and> Get c ''userID'' = Some (VUint uid) \<longrightarrow>
          EnqueueMotorRequest_mqtt now1 now2 now3 now4 True c s =
            \<lparr>reply = JSON 200 [(''message'', S ''Request queued'')],
             trace = [DB_Create \<lparr>da_UserID = uid, da_RequestAt = now3,
                        da_Duration = n * Minute\<rparr> True,
                      ChanSend \<lparr>UserID = 0, RequestAt = now4, Duration = n * Minute\<rparr>],
             after = (quota_window now1 now2 s)
               \<lparr>motorQueue := motorQueue s @
                  [\<lparr>UserID = 0, RequestAt = now4, Duration = n * Minute\<rparr>],
                db_device_activations := db_device_activations s @
                  [\<lparr>da_UserID = uid, da_RequestAt = now3, da_Duration = n * Minute\<rparr>]\<rparr>\<rparr>)
       \<and> (\<not> isShutdown s'
           \<and> totalMotorTime (quota_window t1 t2 s') + Duration req \<le>s motorQuota \<longrightarrow>
          processMotorQueue_body t1 t2 req s' =
            ((quota_window t1 t2 s')
               \<lparr>totalMotorTime := totalMotorTime (quota_window t1 t2 s') + Duration req\<rparr>, []))
       \<and> processMotorQueue_body_mqtt t1 t2 req s' =
            ((quota_window t1 t2 s')
               \<lparr>totalMotorTime := totalMotorTime (quota_window t1 t2 s') + Duration req\<rparr>,
             motor_control req)"
proof -
  have q: "motorQueue (quota_window now1 now2 s) = motorQueue s"
       "db_device_activations (quota_window now1 now2 s) = db_device_activations s"
    by (simp_all add: quota_window_def)
  have a: "\<not> isShutdown s
           \<and> totalMotorTime (quota_window now1 now2 s) + n * Second \<le>s motorQuota \<longrightarrow>
          EnqueueMotorRequest now1 now2 now3 c s =
            \<lparr>reply = JSON 200 [(''message'', S ''Request queued'')],
             trace = [ChanSend \<lparr>UserID = 0, RequestAt = now3, Duration = n * Second\<rparr>],
             after = (quota_window now1 now2 s)
               \<lparr>motorQueue := motorQueue s @
                  [\<lparr>UserID = 0, RequestAt = now3, Duration = n * Second\<rparr>]\<rparr>\<rparr>"
    using bind room by (simp add: EnqueueMotorRequest_def Let_def q not_sless_iff [symmetric])
  have b: "totalMotorTime (quota_window now1 now2 s) + n * Minute \<le>s motorQuota
           \<and> Get c ''userID'' = Some (VUint uid) \<longrightarrow>
          EnqueueMotorRequest_mqtt now1 now2 now3 now4 True c s =
            \<lparr>reply = JSON 200 [(''message'', S ''Request queued'')],
             trace = [DB_Create \<lparr>da_UserID = uid, da_RequestAt = now3,
                        da_Duration = n * Minute\<rparr> True,
                      ChanSend \<lparr>UserID = 0, RequestAt = now4, Duration = n * Minute\<rparr>],
             after = (quota_window now1 now2 s)
               \<lparr>motorQueue := motorQueue s @
                  [\<lparr>UserID = 0, RequestAt = now4, Duration = n * Minute\<rparr>],
                db_device_activations := db_device_activations s @
                  [\<lparr>da_UserID = uid, da_RequestAt = now3, da_Duration = n * Minute\<rparr>]\<rparr>\<rparr>"
    using bind room
    by (simp add: EnqueueMotorRequest_mqtt_def Let_def q not_sless_iff [symmetric])
  have c: "\<not> isShutdown s'
           \<and> totalMotorTime (quota_window t1 t2 s') + Duration req \<le>s motorQuota \<longrightarrow>
          processMotorQueue_body t1 t2 req s' =
            ((quota_window t1 t2 s')
               \<lparr>totalMotorTime := totalMotorTime (quota_window t1 t2 s') + Duration req\<rparr>, [])"
    by (simp add: processMotorQueue_body_def Let_def not_sless_iff [symmetric])
  have d: "processMotorQueue_body_mqtt t1 t2 req s' =
            ((quota_window t1 t2 s')
               \<lparr>totalMotorTime := totalMotorTime (quota_window t1 t2 s') + Duration req\<rparr>,
             motor_control req)"
    by (simp add: processMotorQueue_body_mqtt_def Let_def)
  from a b c d show ?thesis by blast
qed

theorem admission_within_quota_witness:
  "ShouldBindJSON_duration (body ctx60) = Inr 60
   \<and> length (motorQueue (init 0 [])) < motorQueue_cap
   \<and> \<not> isShutdown (init 0 [])
   \<and> totalMotorTime (quota_window 10 11 (init 0 [])) + 60 * Second \<le>s motorQuota
   \<and> totalMotorTime (quota_window 10 11 (init 0 [])) + 60 * Minute \<le>s motorQuota
   \<and> Get ctx60 ''userID'' = Some (VUint 7)
   \<and> reply (EnqueueMotorRequest 10 11 12 ctx60 (init 0 [])) =
        JSON 200 [(''message'', S ''Request queued'')]
   \<and> totalMotorTime (after (EnqueueMotorRequest 10 11 12 ctx60 (init 0 []))) = 0
   \<and> motorQueue (after (EnqueueMotorRequest 10 11 12 ctx60 (init 0 []))) =
        [\<lparr>UserID = 0, RequestAt = 12, Duration = 60 * Second\<rparr>]
   \<and> reply (EnqueueMotorRequest_mqtt 10 11 12 13 True ctx60 (init 0 [])) =
        JSON 200 [(''message'', S ''Request queued'')]
   \<and> totalMotorTime (after (EnqueueMotorRequest_mqtt 10 11 12 13 True ctx60 (init 0 []))) = 0
   \<and> totalMotorTime (fst (processMotorQueue_body 20 21
        \<lparr>UserID = 0, RequestAt = 12, Duration = 60 * Second\<rparr> (init 0 []))) = 60 * Second"
  using admission_within_quota [where c = ctx60 and n = 60 and s = "init 0 []"
      and ?now1.0 = 10 and ?now2.0 = 11 and ?now3.0 = 12 and ?now4.0 = 13 and uid = 7
      and s' = "init 0 []" and ?t1.0 = 20 and ?t2.0 = 21
      and req = "\<lparr>UserID = 0, RequestAt = 12, Duration = 60 * Second\<rparr>"]
  by (simp add: ctx60_def ShouldBindJSON_duration_def quota_window_def After_def Add_def
      init_def motorQuota_def Hour_def Minute_def Second_def motorQueue_cap_def Get_def
      word_sle_eq zero_time_def)

subsection \<open>Rejection beyond the quota\<close>

text \<open>Where the sum that the code forms exceeds the quota, the request is rejected with
  429; the counter is what the lazy reset left and nothing is sent to the queue.\<close>

lemma quota_exceeded_rejected:
  assumes "\<not> isShutdown s" and "ShouldBindJSON_duration (body c) = Inr n"
      and "motorQuota <s totalMotorTime (quota_window now1 now2 s) + n * Second"
  shows "EnqueueMotorRequest now1 now2 now3 c s =
           \<lparr>reply = JSON 429
              [(''error'', S ''Daily motor-on quota reached. Try again after 24 hours.'')],
            trace = [], after = quota_window now1 now2 s\<rparr>"
  using assms by (simp add: EnqueueMotorRequest_def Let_def)

text \<open>As long as the duration in nanoseconds and the sum stay within \<^verbatim>\<open>int64\<close>, the test
  of the code is the comparison of the integers, and a request for \<open>n\<close> seconds that
  takes the sum beyond the hour is rejected.\<close>

lemma sint_word_of_int_64:
  assumes "- (2 ^ 63) \<le> k" "k < 2 ^ 63"
  shows "sint (word_of_int k :: 64 word) = k"
  using assms by (simp add: sint_sbintrunc' signed_take_bit_int_eq_self)

lemma sint_seconds:
  assumes "- (2 ^ 63) \<le> n * 1000000000" "n * 1000000000 < 2 ^ 63"
  shows "sint (word_of_int n * Second :: 64 word) = n * 1000000000"
proof -
  have "(word_of_int (n * 1000000000) :: 64 word) = word_of_int n * Second"
    unfolding Second_def by (simp only: of_int_mult of_int_numeral)
  then show ?thesis
    using sint_word_of_int_64 [OF assms] by simp
qed

lemma sint_sum:
  assumes "- (2 ^ 63) \<le> sint (a :: 64 word) + sint (b :: 64 word)"
    "sint a + sint b < 2 ^ 63"
  shows "sint (a + b) = sint a + sint b"
  using assms by (simp add: sint_word_ariths signed_take_bit_int_eq_self)

lemma quota_exceeded_rejected_in_range:
  assumes "\<not> isShutdown s" and "body c = Member n" and "n \<noteq> 0"
      and "- (2 ^ 63) \<le> n * 1000000000" and "n * 1000000000 < 2 ^ 63"
      and "sint (totalMotorTime (quota_window now1 now2 s)) + n * 1000000000 < 2 ^ 63"
      and "3600000000000 < sint (totalMotorTime (quota_window now1 now2 s)) + n * 1000000000"
  shows "EnqueueMotorRequest now1 now2 now3 c s =
           \<lparr>reply = JSON 429
              [(''error'', S ''Daily motor-on quota reached. Try again after 24 hours.'')],
            trace = [], after = quota_window now1 now2 s\<rparr>"
proof -
  have r: "- (2 ^ 63) \<le> n" "n < 2 ^ 63" using assms(3,4,5) by auto
  then have b: "ShouldBindJSON_duration (body c) = Inr (word_of_int n)"
    using assms(2,3) by (simp add: ShouldBindJSON_duration_def)
  have d: "sint (word_of_int n * Second :: 64 word) = n * 1000000000"
    using assms(4,5) by (rule sint_seconds)
  have "sint (totalMotorTime (quota_window now1 now2 s) + word_of_int n * Second) =
          sint (totalMotorTime (quota_window now1 now2 s)) + n * 1000000000"
    using assms(6,7) by (simp add: sint_sum d)
  then have "motorQuota <s totalMotorTime (quota_window now1 now2 s) + word_of_int n * Second"
    using assms(7) by (simp add: word_sless_alt quota_ns)
  then show ?thesis using assms(1) b by (simp add: quota_exceeded_rejected)
qed

text \<open>
  Claim C3. The sum is formed in \<^verbatim>\<open>int64\<close> and wraps around. After one second of motor
  time, a request for 9223372036 seconds is a valid body and a duration that
  \<^verbatim>\<open>time.Duration\<close> holds; one second plus that duration is beyond one hour, but the sum
  in the code is negative, and the request is admitted with 200 and sent to the queue.
  The product with \<^verbatim>\<open>time.Second\<close> wraps around as well: the fresh system admits a
  request for 18446744074 seconds as one for 290448384 nanoseconds.
\<close>

theorem quota_sum_overflow_admitted:
  "totalMotorTime one_second_run = Second
   \<and> ShouldBindJSON_duration (Member 9223372036) = Inr 9223372036
   \<and> sint (9223372036 * Second) = 9223372036000000000
   \<and> sint motorQuota < sint (totalMotorTime one_second_run) + sint (9223372036 * Second)
   \<and> EnqueueMotorRequest 30 31 32 \<lparr>body = Member 9223372036, keys = []\<rparr> one_second_run =
       \<lparr>reply = JSON 200 [(''message'', S ''Request queued'')],
        trace = [ChanSend \<lparr>UserID = 0, RequestAt = 32, Duration = 9223372036 * Second\<rparr>],
        after = one_second_run
          \<lparr>motorQueue := [\<lparr>UserID = 0, RequestAt = 32, Duration = 9223372036 * Second\<rparr>]\<rparr>\<rparr>
   \<and> EnqueueMotorRequest 30 31 32 \<lparr>body = Member 18446744074, keys = []\<rparr> (init 0 []) =
       \<lparr>reply = JSON 200 [(''message'', S ''Request queued'')],
        trace = [ChanSend \<lparr>UserID = 0, RequestAt = 32, Duration = 290448384\<rparr>],
        after = (init 0 [])
          \<lparr>motorQueue := [\<lparr>UserID = 0, RequestAt = 32, Duration = 290448384\<rparr>]\<rparr>\<rparr>"
  by (simp add: one_second_run_eq eval_defs)

subsection \<open>The lazy reset of the window\<close>

text \<open>
  Claim C4. When the clock is past \<open>quotaResetTime\<close>, the admission check and the check
  of the processor first set the counter to 0 and the end of the window to the second
  reading of the clock plus 24 hours (86400000000000 ns), and decide after that: the
  answer of the handler depends on the duration alone, not on the old counter, so a
  request beyond the old rest of the budget is admitted when its duration is within the
  quota; the processor charges the duration to the new window when it is within the quota.
\<close>

theorem window_reset_before_decision:
  assumes "After now1 (quotaResetTime s)" and "\<not> isShutdown s"
      and "ShouldBindJSON_duration (body c) = Inr n"
  shows "totalMotorTime (after (EnqueueMotorRequest now1 now2 now3 c s)) = 0
       \<and> quotaResetTime (after (EnqueueMotorRequest now1 now2 now3 c s)) =
           now2 + 86400000000000
       \<and> reply (EnqueueMotorRequest now1 now2 now3 c s) =
          (if motorQuota <s n * Second then
             JSON 429
               [(''error'', S ''Daily motor-on quota reached. Try again after 24 hours.'')]
           else if length (motorQueue s) < motorQueue_cap then
             JSON 200 [(''message'', S ''Request queued'')]
           else Blocked)
       \<and> processMotorQueue_body now1 now2 req s =
          (s\<lparr>totalMotorTime := (if motorQuota <s Duration req then 0 else Duration req),
             quotaResetTime := now2 + 86400000000000\<rparr>, [])"
proof -
  have w: "quota_window now1 now2 s =
             s\<lparr>totalMotorTime := 0, quotaResetTime := now2 + 86400000000000\<rparr>"
    using assms(1) by (simp add: quota_window_def Add_def day_ns)
  have e: "totalMotorTime (after (EnqueueMotorRequest now1 now2 now3 c s)) = 0"
          "quotaResetTime (after (EnqueueMotorRequest now1 now2 now3 c s)) =
             now2 + 86400000000000"
          "reply (EnqueueMotorRequest now1 now2 now3 c s) =
          (if motorQuota <s n * Second then
             JSON 429
               [(''error'', S ''Daily motor-on quota reached. Try again after 24 hours.'')]
           else if length (motorQueue s) < motorQueue_cap then
             JSON 200 [(''message'', S ''Request queued'')]
           else Blocked)"
    using assms(2,3) by (simp_all add: EnqueueMotorRequest_def Let_def w)
  have p: "processMotorQueue_body now1 now2 req s =
          (s\<lparr>totalMotorTime := (if motorQuota <s Duration req then 0 else Duration req),
             quotaResetTime := now2 + 86400000000000\<rparr>, [])"
    using assms(2) by (simp add: processMotorQueue_body_def Let_def w)
  from e p show ?thesis by simp
qed

theorem window_reset_before_decision_witness:
  "After 86400000000001 (quotaResetTime used_50min)
   \<and> \<not> isShutdown used_50min
   \<and> ShouldBindJSON_duration (body ctx20min) = Inr 1200
   \<and> motorQuota <s totalMotorTime used_50min + 1200 * Second
   \<and> reply (EnqueueMotorRequest 10 11 12 ctx20min used_50min) =
       JSON 429 [(''error'', S ''Daily motor-on quota reached. Try again after 24 hours.'')]
   \<and> reply (EnqueueMotorRequest 86400000000001 86400000000002 86400000000003
        ctx20min used_50min) = JSON 200 [(''message'', S ''Request queued'')]
   \<and> totalMotorTime (after (EnqueueMotorRequest 86400000000001 86400000000002
        86400000000003 ctx20min used_50min)) = 0
   \<and> quotaResetTime (after (EnqueueMotorRequest 86400000000001 86400000000002
        86400000000003 ctx20min used_50min)) = 172800000000002
   \<and> totalMotorTime (fst (processMotorQueue_body 86400000000001 86400000000002
        \<lparr>UserID = 0, RequestAt = 5, Duration = 1200 * Second\<rparr> used_50min)) = 1200 * Second"
proof -
  have h: "After 86400000000001 (quotaResetTime used_50min)" "\<not> isShutdown used_50min"
      "ShouldBindJSON_duration (body ctx20min) = Inr 1200"
    by (simp_all add: used_50min_def ctx20min_def init_def After_def Add_def day_ns
        ShouldBindJSON_duration_def)
  have old: "reply (EnqueueMotorRequest 10 11 12 ctx20min used_50min) =
       JSON 429 [(''error'', S ''Daily motor-on quota reached. Try again after 24 hours.'')]"
    by (simp add: used_50min_def ctx20min_def eval_defs)
  have q: "motorQuota <s totalMotorTime used_50min + 1200 * Second"
      "\<not> motorQuota <s 1200 * Second" "length (motorQueue used_50min) < motorQueue_cap"
    by (simp_all add: used_50min_def eval_defs)
  show ?thesis
    using h old q window_reset_before_decision [OF h, of 86400000000002 86400000000003
        "\<lparr>UserID = 0, RequestAt = 5, Duration = 1200 * Second\<rparr>"]
    by simp
qed

subsection \<open>What an admitted request leaves behind\<close>

lemma motorQueue_quota_window [simp]:
  "motorQueue (quota_window now1 now2 s) = motorQueue s"
  by (simp add: quota_window_def)

text \<open>A 200 is the answer of one path only: the body binds, the system is not shut
  down, and the request is sent to the tail of the queue.\<close>

lemma Enqueue_200D:
  assumes "reply (EnqueueMotorRequest now1 now2 now3 c s) = JSON 200 b"
  shows "\<exists>n. ShouldBindJSON_duration (body c) = Inr n \<and> \<not> isShutdown s
           \<and> EnqueueMotorRequest now1 now2 now3 c s =
              \<lparr>reply = JSON 200 [(''message'', S ''Request queued'')],
               trace = [ChanSend \<lparr>UserID = 0, RequestAt = now3, Duration = n * Second\<rparr>],
               after = (quota_window now1 now2 s)
                 \<lparr>motorQueue := motorQueue s @
                    [\<lparr>UserID = 0, RequestAt = now3, Duration = n * Second\<rparr>]\<rparr>\<rparr>"
  using assms
  by (auto simp add: EnqueueMotorRequest_def Let_def split: if_splits sum.splits)

lemma Enqueue_mqtt_200D:
  assumes "reply (EnqueueMotorRequest_mqtt now1 now2 now3 now4 db_ok c s) = JSON 200 b"
  shows "\<exists>n uid. ShouldBindJSON_duration (body c) = Inr n
           \<and> Get c ''userID'' = Some (VUint uid) \<and> db_ok
           \<and> EnqueueMotorRequest_mqtt now1 now2 now3 now4 db_ok c s =
              \<lparr>reply = JSON 200 [(''message'', S ''Request queued'')],
               trace = [DB_Create \<lparr>da_UserID = uid, da_RequestAt = now3,
                          da_Duration = n * Minute\<rparr> True,
                        ChanSend \<lparr>UserID = 0, RequestAt = now4, Duration = n * Minute\<rparr>],
               after = (quota_window now1 now2 s)
                 \<lparr>motorQueue := motorQueue s @
                    [\<lparr>UserID = 0, RequestAt = now4, Duration = n * Minute\<rparr>],
                  db_device_activations := db_device_activations s @
                    [\<lparr>da_UserID = uid, da_RequestAt = now3, da_Duration = n * Minute\<rparr>]\<rparr>\<rparr>"
  using assms
  by (auto simp add: EnqueueMotorRequest_mqtt_def Let_def quota_window_def
      split: if_splits sum.splits option.splits ctx_value.splits)

subsection \<open>Order of processing\<close>

lemma processMotorQueue_body_queue:
  "motorQueue (fst (processMotorQueue_body now1 now2 req s)) = motorQueue s
   \<and> snd (processMotorQueue_body now1 now2 req s) = []"
  by (simp add: processMotorQueue_body_def Let_def)

lemma processMotorQueue_fifo:
  "snd (processMotorQueue clk s) = []
   \<and> motorQueue (fst (processMotorQueue clk s)) = drop (length clk) (motorQueue s)"
proof (induction clk arbitrary: s)
  case Nil
  show ?case by simp
next
  case (Cons t clk)
  obtain now1 now2 where t: "t = (now1, now2)" by (cases t)
  show ?case
  proof (cases "motorQueue s")
    case Nil
    then show ?thesis by (simp add: t)
  next
    case (Cons req rest)
    let ?s1 = "fst (processMotorQueue_body now1 now2 req (s\<lparr>motorQueue := rest\<rparr>))"
    have q: "motorQueue ?s1 = rest"
      using processMotorQueue_body_queue [of now1 now2 req "s\<lparr>motorQueue := rest\<rparr>"] by simp
    have e: "snd (processMotorQueue_body now1 now2 req (s\<lparr>motorQueue := rest\<rparr>)) = []"
      using processMotorQueue_body_queue [of now1 now2 req "s\<lparr>motorQueue := rest\<rparr>"] by simp
    show ?thesis
      using Cons.IH [of ?s1] Cons q e by (simp add: t split_def Let_def)
  qed
qed

lemma processMotorQueue_mqtt_fifo:
  "snd (processMotorQueue_mqtt clk s) =
     concat (map motor_control (take (length clk) (motorQueue s)))
   \<and> motorQueue (fst (processMotorQueue_mqtt clk s)) = drop (length clk) (motorQueue s)"
proof (induction clk arbitrary: s)
  case Nil
  show ?case by simp
next
  case (Cons t clk)
  obtain now1 now2 where t: "t = (now1, now2)" by (cases t)
  show ?case
  proof (cases "motorQueue s")
    case Nil
    then show ?thesis by (simp add: t)
  next
    case (Cons req rest)
    let ?s1 = "fst (processMotorQueue_body_mqtt now1 now2 req (s\<lparr>motorQueue := rest\<rparr>))"
    have q: "motorQueue ?s1 = rest"
      by (simp add: processMotorQueue_body_mqtt_def Let_def)
    have e: "snd (processMotorQueue_body_mqtt now1 now2 req (s\<lparr>motorQueue := rest\<rparr>)) =
               motor_control req"
      by (simp add: processMotorQueue_body_mqtt_def Let_def)
    show ?thesis
      using Cons.IH [of ?s1] Cons q e by (simp add: t split_def Let_def)
  qed
qed

lemma two_admissions_mqtt:
  assumes A: "reply (EnqueueMotorRequest_mqtt a1 a2 a3 a4 okA cA s) = JSON 200 bA"
      and B: "reply (EnqueueMotorRequest_mqtt b1 b2 b3 b4 okB cB
                (after (EnqueueMotorRequest_mqtt a1 a2 a3 a4 okA cA s))) = JSON 200 bB"
      and clk: "length (motorQueue s) + 2 \<le> length clk"
  shows "\<exists>reqA reqB.
           last (trace (EnqueueMotorRequest_mqtt a1 a2 a3 a4 okA cA s)) = ChanSend reqA
         \<and> last (trace (EnqueueMotorRequest_mqtt b1 b2 b3 b4 okB cB
                (after (EnqueueMotorRequest_mqtt a1 a2 a3 a4 okA cA s)))) = ChanSend reqB
         \<and> snd (processMotorQueue_mqtt clk
                (after (EnqueueMotorRequest_mqtt b1 b2 b3 b4 okB cB
                  (after (EnqueueMotorRequest_mqtt a1 a2 a3 a4 okA cA s))))) =
             concat (map motor_control (motorQueue s))
               @ motor_control reqA @ motor_control reqB"
proof -
  let ?rA = "EnqueueMotorRequest_mqtt a1 a2 a3 a4 okA cA s"
  let ?rB = "EnqueueMotorRequest_mqtt b1 b2 b3 b4 okB cB (after ?rA)"
  from Enqueue_mqtt_200D [OF A] obtain reqA where
    a: "last (trace ?rA) = ChanSend reqA" "motorQueue (after ?rA) = motorQueue s @ [reqA]"
    by auto
  from Enqueue_mqtt_200D [OF B] obtain reqB where
    b: "last (trace ?rB) = ChanSend reqB"
       "motorQueue (after ?rB) = motorQueue (after ?rA) @ [reqB]"
    by auto
  have q: "motorQueue (after ?rB) = motorQueue s @ [reqA, reqB]"
    using a b by simp
  have "snd (processMotorQueue_mqtt clk (after ?rB)) =
          concat (map motor_control (motorQueue s)) @ motor_control reqA @ motor_control reqB"
    using processMotorQueue_mqtt_fifo [of clk "after ?rB"] clk by (simp add: q)
  with a b show ?thesis by blast
qed


lemma two_admitted_eval:
  "after (EnqueueMotorRequest_mqtt 20 21 22 23 True ctx20
            (after (EnqueueMotorRequest_mqtt 10 11 12 13 True ctx10 (init 0 [])))) =
   (init 0 [])
     \<lparr>motorQueue := [\<lparr>UserID = 0, RequestAt = 13, Duration = 10 * Minute\<rparr>,
                     \<lparr>UserID = 0, RequestAt = 23, Duration = 20 * Minute\<rparr>],
      db_device_activations :=
        [\<lparr>da_UserID = 7, da_RequestAt = 12, da_Duration = 10 * Minute\<rparr>,
         \<lparr>da_UserID = 8, da_RequestAt = 22, da_Duration = 20 * Minute\<rparr>]\<rparr>"
  by (simp add: ctx10_def ctx20_def eval_defs)

text \<open>
  Claim C5, as the claim states it, fails on the shutdown revision: the processor takes
  the two waiting requests in their order and charges 60 and 30 seconds to the quota,
  but the three lines of motor control are comments there, and nothing is published.
\<close>

theorem commented_out_motor_control_counterexample:
  "processMotorQueue [(20, 21), (30, 31)] two_waiting =
     (two_waiting\<lparr>motorQueue := [], totalMotorTime := 90 * Second\<rparr>, [])
   \<and> snd (processMotorQueue [(20, 21), (30, 31)] two_waiting) \<noteq>
       motor_control \<lparr>UserID = 0, RequestAt = 5, Duration = 60 * Second\<rparr> @
       motor_control \<lparr>UserID = 0, RequestAt = 6, Duration = 30 * Second\<rparr>"
  by (simp add: two_waiting_def eval_defs)

text \<open>
  Claim C5, amended. Admission sends the request to the tail of the queue and the
  processor takes the requests from its head, one per iteration, so requests are handled
  in the order of their admission. In the logging revision each handled request gives
  publish "on", sleep for its duration, publish "off", the three of one request before
  the three of the next: when A and then B are admitted and the processor runs long
  enough, its commands are those for the requests that waited before, then those for A,
  then those for B. In the shutdown revision the processor handles the requests in the
  same order and publishes nothing.
\<close>

theorem fifo_processing:
  "(reply (EnqueueMotorRequest_mqtt a1 a2 a3 a4 okA cA s) = JSON 200 bA
      \<and> reply (EnqueueMotorRequest_mqtt b1 b2 b3 b4 okB cB
            (after (EnqueueMotorRequest_mqtt a1 a2 a3 a4 okA cA s))) = JSON 200 bB
      \<and> length (motorQueue s) + 2 \<le> length clk' \<longrightarrow>
      (\<exists>reqA reqB.
           last (trace (EnqueueMotorRequest_mqtt a1 a2 a3 a4 okA cA s)) = ChanSend reqA
         \<and> last (trace (EnqueueMotorRequest_mqtt b1 b2 b3 b4 okB cB
                (after (EnqueueMotorRequest_mqtt a1 a2 a3 a4 okA cA s)))) = ChanSend reqB
         \<and> snd (processMotorQueue_mqtt clk'
                (after (EnqueueMotorRequest_mqtt b1 b2 b3 b4 okB cB
                  (after (EnqueueMotorRequest_mqtt a1 a2 a3 a4 okA cA s))))) =
             concat (map motor_control (motorQueue s))
               @ motor_control reqA @ motor_control reqB))
   \<and> snd (processMotorQueue_mqtt clk s) =
       concat (map motor_control (take (length clk) (motorQueue s)))
   \<and> motorQueue (fst (processMotorQueue_mqtt clk s)) = drop (length clk) (motorQueue s)
   \<and> (reply (EnqueueMotorRequest now1 now2 now3 c s) = JSON 200 b \<longrightarrow>
      (\<exists>req. trace (EnqueueMotorRequest now1 now2 now3 c s) = [ChanSend req]
         \<and> motorQueue (after (EnqueueMotorRequest now1 now2 now3 c s)) = motorQueue s @ [req]))
   \<and> snd (processMotorQueue clk s) = []
   \<and> motorQueue (fst (processMotorQueue clk s)) = drop (length clk) (motorQueue s)"
proof -
  have a: "reply (EnqueueMotorRequest now1 now2 now3 c s) = JSON 200 b \<longrightarrow>
      (\<exists>req. trace (EnqueueMotorRequest now1 now2 now3 c s) = [ChanSend req]
         \<and> motorQueue (after (EnqueueMotorRequest now1 now2 now3 c s)) = motorQueue s @ [req])"
  proof
    assume "reply (EnqueueMotorRequest now1 now2 now3 c s) = JSON 200 b"
    from Enqueue_200D [OF this] obtain n where
      "EnqueueMotorRequest now1 now2 now3 c s =
              \<lparr>reply = JSON 200 [(''message'', S ''Request queued'')],
               trace = [ChanSend \<lparr>UserID = 0, RequestAt = now3, Duration = n * Second\<rparr>],
               after = (quota_window now1 now2 s)
                 \<lparr>motorQueue := motorQueue s @
                    [\<lparr>UserID = 0, RequestAt = now3, Duration = n * Second\<rparr>]\<rparr>\<rparr>"
      by blast
    then show "\<exists>req. trace (EnqueueMotorRequest now1 now2 now3 c s) = [ChanSend req]
         \<and> motorQueue (after (EnqueueMotorRequest now1 now2 now3 c s)) = motorQueue s @ [req]"
      by simp
  qed
  from a two_admissions_mqtt [of a1 a2 a3 a4 okA cA s bA b1 b2 b3 b4 okB cB bB clk']
    processMotorQueue_mqtt_fifo [of clk s] processMotorQueue_fifo [of clk s]
  show ?thesis by blast
qed

theorem fifo_processing_witness:
  "reply (EnqueueMotorRequest_mqtt 10 11 12 13 True ctx10 (init 0 [])) =
     JSON 200 [(''message'', S ''Request queued'')]
   \<and> reply (EnqueueMotorRequest_mqtt 20 21 22 23 True ctx20
        (after (EnqueueMotorRequest_mqtt 10 11 12 13 True ctx10 (init 0 [])))) =
     JSON 200 [(''message'', S ''Request queued'')]
   \<and> length (motorQueue (init 0 [])) + 2 \<le> length [(30, 31), (40, 41 :: time)]
   \<and> reply (EnqueueMotorRequest 10 11 12 ctx10 (init 0 [])) =
     JSON 200 [(''message'', S ''Request queued'')]
   \<and> snd (processMotorQueue_mqtt [(30, 31), (40, 41)]
        (after (EnqueueMotorRequest_mqtt 20 21 22 23 True ctx20
          (after (EnqueueMotorRequest_mqtt 10 11 12 13 True ctx10 (init 0 [])))))) =
       [Publish ''motor/control'' ''on'', Sleep (10 * Minute), Publish ''motor/control'' ''off'',
        Publish ''motor/control'' ''on'', Sleep (20 * Minute), Publish ''motor/control'' ''off'']"
proof -
  have h: "reply (EnqueueMotorRequest_mqtt 10 11 12 13 True ctx10 (init 0 [])) =
     JSON 200 [(''message'', S ''Request queued'')]"
    "reply (EnqueueMotorRequest_mqtt 20 21 22 23 True ctx20
        (after (EnqueueMotorRequest_mqtt 10 11 12 13 True ctx10 (init 0 [])))) =
     JSON 200 [(''message'', S ''Request queued'')]"
    "reply (EnqueueMotorRequest 10 11 12 ctx10 (init 0 [])) =
     JSON 200 [(''message'', S ''Request queued'')]"
    by (simp_all add: ctx10_def ctx20_def eval_defs)
  have l: "length (motorQueue (init 0 [])) + 2 \<le> length [(30, 31), (40, 41 :: time)]"
    by (simp add: init_def)
  have t: "snd (processMotorQueue_mqtt [(30, 31), (40, 41)]
        (after (EnqueueMotorRequest_mqtt 20 21 22 23 True ctx20
          (after (EnqueueMotorRequest_mqtt 10 11 12 13 True ctx10 (init 0 [])))))) =
       [Publish ''motor/control'' ''on'', Sleep (10 * Minute), Publish ''motor/control'' ''off'',
        Publish ''motor/control'' ''on'', Sleep (20 * Minute), Publish ''motor/control'' ''off'']"
    unfolding two_admitted_eval by (simp add: eval_defs)
  show ?thesis
    using h l t
      fifo_processing [where ?a1.0 = 10 and ?a2.0 = 11 and ?a3.0 = 12 and ?a4.0 = 13
        and okA = True and cA = ctx10 and s = "init 0 []"
        and ?b1.0 = 20 and ?b2.0 = 21 and ?b3.0 = 22 and ?b4.0 = 23 and okB = True
        and cB = ctx20 and clk' = "[(30, 31), (40, 41)]" and clk = "[]"
        and ?now1.0 = 10 and ?now2.0 = 11 and ?now3.0 = 12 and c = ctx10
        and bA = "[(''message'', S ''Request queued'')]"
        and bB = "[(''message'', S ''Request queued'')]"
        and b = "[(''message'', S ''Request queued'')]"]
    by simp
qed

subsection \<open>Restart after a shutdown\<close>

lemma Enqueue_ignores_metadata:
  assumes "\<not> isShutdown s"
  shows "EnqueueMotorRequest now1 now2 now3 c
           (s\<lparr>isShutdown := False, shutdownReason := r, shutdownBy := b, shutdownAt := t\<rparr>) =
         \<lparr>reply = reply (EnqueueMotorRequest now1 now2 now3 c s),
          trace = trace (EnqueueMotorRequest now1 now2 now3 c s),
          after = (after (EnqueueMotorRequest now1 now2 now3 c s))
            \<lparr>isShutdown := False, shutdownReason := r, shutdownBy := b, shutdownAt := t\<rparr>\<rparr>"
  using assms
  by (simp add: EnqueueMotorRequest_def Let_def quota_window_def split: sum.splits)

lemma AdminForceShutdown_frame:
  "\<exists>f r b t. after (AdminForceShutdown now c s) =
      s\<lparr>isShutdown := f, shutdownReason := r, shutdownBy := b, shutdownAt := t\<rparr>"
proof (cases "isShutdown (after (AdminForceShutdown now c s)) = isShutdown s
    \<and> after (AdminForceShutdown now c s) = s")
  case True
  then have "after (AdminForceShutdown now c s) =
      s\<lparr>isShutdown := isShutdown s, shutdownReason := shutdownReason s,
        shutdownBy := shutdownBy s, shutdownAt := shutdownAt s\<rparr>" by simp
  then show ?thesis by blast
next
  case False
  then show ?thesis
    by (auto simp add: AdminForceShutdown_def Let_def
        split: sum.splits option.splits ctx_value.splits)
qed

text \<open>
  Claim C6. \<^verbatim>\<open>AdminRestart\<close> after \<^verbatim>\<open>AdminForceShutdown\<close> always answers 200 and leaves
  the state that was there before the shutdown with the flag cleared, the reason and
  the initiator empty and the time of the shutdown zero; the quota, the queue and the
  tables are as before. An admission that got a 200 before the shutdown gets the same
  200 afterwards, with the same request sent to the queue.
\<close>

theorem restart_round_trip:
  "reply (AdminRestart nowR (after (AdminForceShutdown nowS cS s))) =
     JSON 200 [(''message'', S ''Motor system restarted successfully''),
               (''restart_at'', T nowR)]
   \<and> after (AdminRestart nowR (after (AdminForceShutdown nowS cS s))) =
       s\<lparr>isShutdown := False, shutdownReason := [], shutdownBy := [],
         shutdownAt := zero_time\<rparr>
   \<and> (reply (EnqueueMotorRequest now1 now2 now3 c s) = JSON 200 b \<longrightarrow>
        EnqueueMotorRequest now1 now2 now3 c
          (after (AdminRestart nowR (after (AdminForceShutdown nowS cS s)))) =
        \<lparr>reply = JSON 200 b,
         trace = trace (EnqueueMotorRequest now1 now2 now3 c s),
         after = (after (EnqueueMotorRequest now1 now2 now3 c s))
           \<lparr>isShutdown := False, shutdownReason := [], shutdownBy := [],
            shutdownAt := zero_time\<rparr>\<rparr>)"
proof -
  obtain f r b' t where fr: "after (AdminForceShutdown nowS cS s) =
      s\<lparr>isShutdown := f, shutdownReason := r, shutdownBy := b', shutdownAt := t\<rparr>"
    using AdminForceShutdown_frame by blast
  have st: "after (AdminRestart nowR (after (AdminForceShutdown nowS cS s))) =
       s\<lparr>isShutdown := False, shutdownReason := [], shutdownBy := [],
         shutdownAt := zero_time\<rparr>"
    by (simp add: AdminRestart_def fr)
  have rp: "reply (AdminRestart nowR (after (AdminForceShutdown nowS cS s))) =
     JSON 200 [(''message'', S ''Motor system restarted successfully''),
               (''restart_at'', T nowR)]"
    by (simp add: AdminRestart_def)
  have adm: "reply (EnqueueMotorRequest now1 now2 now3 c s) = JSON 200 b \<longrightarrow>
        EnqueueMotorRequest now1 now2 now3 c
          (after (AdminRestart nowR (after (AdminForceShutdown nowS cS s)))) =
        \<lparr>reply = JSON 200 b,
         trace = trace (EnqueueMotorRequest now1 now2 now3 c s),
         after = (after (EnqueueMotorRequest now1 now2 now3 c s))
           \<lparr>isShutdown := False, shutdownReason := [], shutdownBy := [],
            shutdownAt := zero_time\<rparr>\<rparr>"
  proof
    assume ok: "reply (EnqueueMotorRequest now1 now2 now3 c s) = JSON 200 b"
    then have ns: "\<not> isShutdown s"
      by (auto simp add: EnqueueMotorRequest_def)
    show "EnqueueMotorRequest now1 now2 now3 c
          (after (AdminRestart nowR (after (AdminForceShutdown nowS cS s)))) =
        \<lparr>reply = JSON 200 b,
         trace = trace (EnqueueMotorRequest now1 now2 now3 c s),
         after = (after (EnqueueMotorRequest now1 now2 now3 c s))
           \<lparr>isShutdown := False, shutdownReason := [], shutdownBy := [],
            shutdownAt := zero_time\<rparr>\<rparr>"
      using ok by (simp add: st Enqueue_ignores_metadata [OF ns])
  qed
  from rp st adm show ?thesis by blast
qed

theorem restart_round_trip_witness:
  "reply (EnqueueMotorRequest 1 2 3 ctx10min (init 0 [admin])) =
     JSON 200 [(''message'', S ''Request queued'')]
   \<and> after (AdminForceShutdown 7 ctx_shutdown (init 0 [admin])) =
       (init 0 [admin])\<lparr>isShutdown := True, shutdownReason := ''maintenance'',
          shutdownBy := ''opA'', shutdownAt := 7\<rparr>
   \<and> reply (EnqueueMotorRequest 8 9 10 ctx10min
        (after (AdminForceShutdown 7 ctx_shutdown (init 0 [admin])))) =
       JSON 503
         [(''error'', S ''Motor system is currently shut down''),
          (''reason'', S ''maintenance''),
          (''shutdown_by'', S ''opA''),
          (''shutdown_at'', T 7)]
   \<and> after (AdminRestart 11 (after (AdminForceShutdown 7 ctx_shutdown (init 0 [admin])))) =
       init 0 [admin]
   \<and> reply (EnqueueMotorRequest 1 2 3 ctx10min
        (after (AdminRestart 11 (after (AdminForceShutdown 7 ctx_shutdown (init 0 [admin])))))) =
       JSON 200 [(''message'', S ''Request queued'')]"
proof -
  have h: "reply (EnqueueMotorRequest 1 2 3 ctx10min (init 0 [admin])) =
     JSON 200 [(''message'', S ''Request queued'')]"
    by (simp add: ctx10min_def eval_defs)
  have sd: "after (AdminForceShutdown 7 ctx_shutdown (init 0 [admin])) =
       (init 0 [admin])\<lparr>isShutdown := True, shutdownReason := ''maintenance'',
          shutdownBy := ''opA'', shutdownAt := 7\<rparr>"
    by (simp add: AdminForceShutdown_def ShouldBindJSON_reason_def ctx_shutdown_def Get_def
        DB_First_def admin_def init_def)
  have rj: "reply (EnqueueMotorRequest 8 9 10 ctx10min
        (after (AdminForceShutdown 7 ctx_shutdown (init 0 [admin])))) =
       JSON 503
         [(''error'', S ''Motor system is currently shut down''),
          (''reason'', S ''maintenance''),
          (''shutdown_by'', S ''opA''),
          (''shutdown_at'', T 7)]"
    by (simp add: sd EnqueueMotorRequest_def)
  have i: "(init 0 [admin])\<lparr>isShutdown := False, shutdownReason := [], shutdownBy := [],
         shutdownAt := zero_time\<rparr> = init 0 [admin]"
    by (simp add: init_def)
  show ?thesis
    using h sd rj
      restart_round_trip [where nowR = 11 and nowS = 7 and cS = ctx_shutdown
        and s = "init 0 [admin]" and ?now1.0 = 1 and ?now2.0 = 2 and ?now3.0 = 3
        and c = ctx10min and b = "[(''message'', S ''Request queued'')]"]
    by (simp add: i)
qed

subsection \<open>The full queue\<close>

lemma submit_one:
  assumes "\<not> isShutdown s" "\<not> After 10 (quotaResetTime s)" "totalMotorTime s = 0"
  shows "EnqueueMotorRequest 10 11 12 ctx1 s =
    (if length (motorQueue s) < motorQueue_cap then
       \<lparr>reply = JSON 200 [(''message'', S ''Request queued'')],
        trace = [ChanSend \<lparr>UserID = 0, RequestAt = 12, Duration = Second\<rparr>],
        after = s\<lparr>motorQueue := motorQueue s @
          [\<lparr>UserID = 0, RequestAt = 12, Duration = Second\<rparr>]\<rparr>\<rparr>
     else \<lparr>reply = Blocked, trace = [], after = s\<rparr>)"
proof -
  have b: "ShouldBindJSON_duration (body ctx1) = Inr 1"
    by (simp add: ctx1_def ShouldBindJSON_duration_def)
  have w: "quota_window 10 11 s = s" using assms(2) by (simp add: quota_window_def)
  have q: "\<not> motorQuota <s Second"
    by (simp add: motorQuota_def Hour_def Minute_def Second_def word_sless_alt)
  show ?thesis using assms(1,3) q by (simp add: EnqueueMotorRequest_def b w Let_def)
qed

lemma submit_rapidly_Suc:
  "submit_rapidly (Suc k) s =
     (reply (EnqueueMotorRequest 10 11 12 ctx1 s)
        # fst (submit_rapidly k (after (EnqueueMotorRequest 10 11 12 ctx1 s))),
      snd (submit_rapidly k (after (EnqueueMotorRequest 10 11 12 ctx1 s))))"
  by (simp add: Let_def split_def)

lemma submit_rapidly_fills:
  assumes "\<not> isShutdown s" "\<not> After 10 (quotaResetTime s)" "totalMotorTime s = 0"
      and "length (motorQueue s) + k = motorQueue_cap"
  shows "submit_rapidly (Suc k) s =
     (replicate k (JSON 200 [(''message'', S ''Request queued'')]) @ [Blocked],
      s\<lparr>motorQueue := motorQueue s @
         replicate k \<lparr>UserID = 0, RequestAt = 12, Duration = Second\<rparr>\<rparr>)"
  using assms
proof (induction k arbitrary: s)
  case 0
  then show ?case by (simp add: submit_one)
next
  case (Suc k)
  let ?s1 = "s\<lparr>motorQueue := motorQueue s @
          [\<lparr>UserID = 0, RequestAt = 12, Duration = Second\<rparr>]\<rparr>"
  have r: "EnqueueMotorRequest 10 11 12 ctx1 s =
       \<lparr>reply = JSON 200 [(''message'', S ''Request queued'')],
        trace = [ChanSend \<lparr>UserID = 0, RequestAt = 12, Duration = Second\<rparr>],
        after = ?s1\<rparr>"
    using Suc.prems by (simp add: submit_one)
  have ih: "submit_rapidly (Suc k) ?s1 =
     (replicate k (JSON 200 [(''message'', S ''Request queued'')]) @ [Blocked],
      ?s1\<lparr>motorQueue := motorQueue ?s1 @
         replicate k \<lparr>UserID = 0, RequestAt = 12, Duration = Second\<rparr>\<rparr>)"
    using Suc.prems by (intro Suc.IH) simp_all
  show ?case
    by (subst submit_rapidly_Suc) (simp add: r ih del: submit_rapidly.simps)
qed

text \<open>
  Claim C7. Of 101 requests that arrive while the processor takes nothing from the
  queue, the first 100 are answered with 200 and fill the buffer; the 101st gets no
  answer: the handler is blocked in the send to the channel. No rejection for a full
  queue exists. In the logging revision the blocked handler has written its audit
  record already.
\<close>

theorem full_queue_blocks_101st:
  "submit_rapidly 101 (init 0 []) =
     (replicate 100 (JSON 200 [(''message'', S ''Request queued'')]) @ [Blocked], full_queue)
   \<and> length (motorQueue full_queue) = motorQueue_cap
   \<and> EnqueueMotorRequest 10 11 12 ctx1 full_queue =
       \<lparr>reply = Blocked, trace = [], after = full_queue\<rparr>
   \<and> EnqueueMotorRequest_mqtt 10 11 12 13 True ctx10 full_queue =
       \<lparr>reply = Blocked,
        trace = [DB_Create \<lparr>da_UserID = 7, da_RequestAt = 12,
                   da_Duration = 10 * Minute\<rparr> True],
        after = full_queue\<lparr>db_device_activations :=
          [\<lparr>da_UserID = 7, da_RequestAt = 12, da_Duration = 10 * Minute\<rparr>]\<rparr>\<rparr>"
proof -
  have "submit_rapidly (Suc 100) (init 0 []) =
     (replicate 100 (JSON 200 [(''message'', S ''Request queued'')]) @ [Blocked],
      (init 0 [])\<lparr>motorQueue := motorQueue (init 0 []) @
         replicate 100 \<lparr>UserID = 0, RequestAt = 12, Duration = Second\<rparr>\<rparr>)"
    by (rule submit_rapidly_fills)
       (simp_all add: init_def After_def Add_def day_ns motorQueue_cap_def)
  moreover have "motorQueue (init 0 []) = []" by (simp add: init_def)
  moreover have "Suc 100 = 101" by simp
  ultimately have a: "submit_rapidly 101 (init 0 []) =
     (replicate 100 (JSON 200 [(''message'', S ''Request queued'')]) @ [Blocked], full_queue)"
    by (simp add: full_queue_def del: submit_rapidly.simps replicate.simps)
  have b: "length (motorQueue full_queue) = motorQueue_cap"
    by (simp add: full_queue_def motorQueue_cap_def)
  have c: "EnqueueMotorRequest 10 11 12 ctx1 full_queue =
       \<lparr>reply = Blocked, trace = [], after = full_queue\<rparr>"
    by (simp add: full_queue_def ctx1_def eval_defs)
  have d: "EnqueueMotorRequest_mqtt 10 11 12 13 True ctx10 full_queue =
       \<lparr>reply = Blocked,
        trace = [DB_Create \<lparr>da_UserID = 7, da_RequestAt = 12,
                   da_Duration = 10 * Minute\<rparr> True],
        after = full_queue\<lparr>db_device_activations :=
          [\<lparr>da_UserID = 7, da_RequestAt = 12, da_Duration = 10 * Minute\<rparr>]\<rparr>\<rparr>"
    by (simp add: full_queue_def ctx10_def eval_defs)
  from a b c d show ?thesis by simp
qed

subsection \<open>Validation of the duration\<close>

text \<open>
  Claim C8, as the claim states it, fails: a negative duration passes the binding, whose
  only rule is \<^verbatim>\<open>required\<close>, and the request is admitted and sent to the queue.
\<close>

theorem negative_duration_counterexample:
  "ShouldBindJSON_duration (Member (- 5)) = Inr (- 5)
   \<and> EnqueueMotorRequest 10 11 12 \<lparr>body = Member (- 5), keys = []\<rparr> (init 0 []) =
       \<lparr>reply = JSON 200 [(''message'', S ''Request queued'')],
        trace = [ChanSend \<lparr>UserID = 0, RequestAt = 12, Duration = - 5 * Second\<rparr>],
        after = (init 0 [])
          \<lparr>motorQueue := [\<lparr>UserID = 0, RequestAt = 12, Duration = - 5 * Second\<rparr>]\<rparr>\<rparr>"
  by (simp add: eval_defs)

text \<open>
  Claim C8, amended. A request whose duration is absent or zero is rejected with 400
  before any variable is changed and nothing is sent to the queue; in the shutdown
  revision the shutdown check comes first, and while the system is shut down the answer
  is the 503, with the state unchanged as well.
\<close>

theorem missing_or_zero_duration_rejected:
  assumes "body c = Missing \<or> body c = Member 0"
  shows "EnqueueMotorRequest now1 now2 now3 c s =
           \<lparr>reply =
              (if isShutdown s then
                 JSON 503
                   [(''error'', S ''Motor system is currently shut down''),
                    (''reason'', S (shutdownReason s)),
                    (''shutdown_by'', S (shutdownBy s)),
                    (''shutdown_at'', T (shutdownAt s))]
               else JSON 400 [(''error'', E RequiredError)]),
            trace = [], after = s\<rparr>
       \<and> EnqueueMotorRequest_mqtt now1 now2 now3 now4 db_ok c s =
           \<lparr>reply = JSON 400 [(''error'', E RequiredError)], trace = [], after = s\<rparr>"
proof -
  have "ShouldBindJSON_duration (body c) = Inl RequiredError"
    using assms by (auto simp add: ShouldBindJSON_duration_def)
  then show ?thesis
    by (simp add: EnqueueMotorRequest_def EnqueueMotorRequest_mqtt_def)
qed

theorem missing_or_zero_duration_rejected_witness:
  "(body \<lparr>body = Member (0::int), keys = []\<rparr> = Missing
      \<or> body \<lparr>body = Member (0::int), keys = []\<rparr> = Member 0)
   \<and> EnqueueMotorRequest 10 11 12 \<lparr>body = Member 0, keys = []\<rparr> used_50min =
       \<lparr>reply = JSON 400 [(''error'', E RequiredError)], trace = [], after = used_50min\<rparr>
   \<and> EnqueueMotorRequest_mqtt 10 11 12 13 True \<lparr>body = Member 0, keys = []\<rparr> used_50min =
       \<lparr>reply = JSON 400 [(''error'', E RequiredError)], trace = [], after = used_50min\<rparr>"
proof -
  have h: "body \<lparr>body = Member (0::int), keys = []\<rparr> = Missing
      \<or> body \<lparr>body = Member (0::int), keys = []\<rparr> = Member 0" by simp
  have n: "\<not> isShutdown used_50min" by (simp add: used_50min_def init_def)
  show ?thesis
    using h n missing_or_zero_duration_rejected [OF h, of 10 11 12 used_50min 13 True]
    by simp
qed


subsection \<open>The audit record\<close>

lemma Enqueue_mqtt_db_fails:
  "motorQueue (after (EnqueueMotorRequest_mqtt now1 now2 now3 now4 False c s)) = motorQueue s
   \<and> db_device_activations (after (EnqueueMotorRequest_mqtt now1 now2 now3 now4 False c s)) =
       db_device_activations s
   \<and> (\<forall>req. ChanSend req \<notin> set (trace (EnqueueMotorRequest_mqtt now1 now2 now3 now4 False c s)))"
  by (simp add: EnqueueMotorRequest_mqtt_def Let_def quota_window_def
      split: sum.splits option.splits ctx_value.splits)

text \<open>
  Claim C9. In the logging revision, a request that is admitted has written exactly one
  \<^verbatim>\<open>DeviceActivation\<close>, with the user id of the context, the time of the request and the
  duration, and has written it before the send to the queue. When the write fails, the
  caller gets the 500 "failed to log request", the queue is as it was and nothing is
  sent to it.
\<close>

theorem audit_before_enqueue:
  "(reply (EnqueueMotorRequest_mqtt now1 now2 now3 now4 db_ok c s) = JSON 200 b \<longrightarrow>
      (\<exists>n uid. ShouldBindJSON_duration (body c) = Inr n
         \<and> Get c ''userID'' = Some (VUint uid)
         \<and> trace (EnqueueMotorRequest_mqtt now1 now2 now3 now4 db_ok c s) =
             [DB_Create \<lparr>da_UserID = uid, da_RequestAt = now3,
                da_Duration = n * Minute\<rparr> True,
              ChanSend \<lparr>UserID = 0, RequestAt = now4, Duration = n * Minute\<rparr>]
         \<and> db_device_activations
               (after (EnqueueMotorRequest_mqtt now1 now2 now3 now4 db_ok c s)) =
             db_device_activations s @
               [\<lparr>da_UserID = uid, da_RequestAt = now3, da_Duration = n * Minute\<rparr>]
         \<and> motorQueue (after (EnqueueMotorRequest_mqtt now1 now2 now3 now4 db_ok c s)) =
             motorQueue s @ [\<lparr>UserID = 0, RequestAt = now4, Duration = n * Minute\<rparr>]))
   \<and> (ShouldBindJSON_duration (body c) = Inr m
        \<and> totalMotorTime (quota_window now1 now2 s) + m * Minute \<le>s motorQuota
        \<and> Get c ''userID'' = Some (VUint u) \<longrightarrow>
      EnqueueMotorRequest_mqtt now1 now2 now3 now4 False c s =
        \<lparr>reply = JSON 500 [(''error'', S ''failed to log request'')],
         trace = [DB_Create \<lparr>da_UserID = u, da_RequestAt = now3,
                    da_Duration = m * Minute\<rparr> False],
         after = quota_window now1 now2 s\<rparr>)
   \<and> motorQueue (after (EnqueueMotorRequest_mqtt now1 now2 now3 now4 False c s)) = motorQueue s
   \<and> (\<forall>req. ChanSend req \<notin> set (trace (EnqueueMotorRequest_mqtt now1 now2 now3 now4 False c s)))"
proof -
  have a: "reply (EnqueueMotorRequest_mqtt now1 now2 now3 now4 db_ok c s) = JSON 200 b \<longrightarrow>
      (\<exists>n uid. ShouldBindJSON_duration (body c) = Inr n
         \<and> Get c ''userID'' = Some (VUint uid)
         \<and> trace (EnqueueMotorRequest_mqtt now1 now2 now3 now4 db_ok c s) =
             [DB_Create \<lparr>da_UserID = uid, da_RequestAt = now3,
                da_Duration = n * Minute\<rparr> True,
              ChanSend \<lparr>UserID = 0, RequestAt = now4, Duration = n * Minute\<rparr>]
         \<and> db_device_activations
               (after (EnqueueMotorRequest_mqtt now1 now2 now3 now4 db_ok c s)) =
             db_device_activations s @
               [\<lparr>da_UserID = uid, da_RequestAt = now3, da_Duration = n * Minute\<rparr>]
         \<and> motorQueue (after (EnqueueMotorRequest_mqtt now1 now2 now3 now4 db_ok c s)) =
             motorQueue s @ [\<lparr>UserID = 0, RequestAt = now4, Duration = n * Minute\<rparr>])"
  proof
    assume "reply (EnqueueMotorRequest_mqtt now1 now2 now3 now4 db_ok c s) = JSON 200 b"
    from Enqueue_mqtt_200D [OF this] obtain n uid where
      h: "ShouldBindJSON_duration (body c) = Inr n" "Get c ''userID'' = Some (VUint uid)"
      and r: "EnqueueMotorRequest_mqtt now1 now2 now3 now4 db_ok c s =
              \<lparr>reply = JSON 200 [(''message'', S ''Request queued'')],
               trace = [DB_Create \<lparr>da_UserID = uid, da_RequestAt = now3,
                          da_Duration = n * Minute\<rparr> True,
                        ChanSend \<lparr>UserID = 0, RequestAt = now4, Duration = n * Minute\<rparr>],
               after = (quota_window now1 now2 s)
                 \<lparr>motorQueue := motorQueue s @
                    [\<lparr>UserID = 0, RequestAt = now4, Duration = n * Minute\<rparr>],
                  db_device_activations := db_device_activations s @
                    [\<lparr>da_UserID = uid, da_RequestAt = now3, da_Duration = n * Minute\<rparr>]\<rparr>\<rparr>"
      by blast
    show "\<exists>n uid. ShouldBindJSON_duration (body c) = Inr n
         \<and> Get c ''userID'' = Some (VUint uid)
         \<and> trace (EnqueueMotorRequest_mqtt now1 now2 now3 now4 db_ok c s) =
             [DB_Create \<lparr>da_UserID = uid, da_RequestAt = now3,
                da_Duration = n * Minute\<rparr> True,
              ChanSend \<lparr>UserID = 0, RequestAt = now4, Duration = n * Minute\<rparr>]
         \<and> db_device_activations
               (after (EnqueueMotorRequest_mqtt now1 now2 now3 now4 db_ok c s)) =
             db_device_activations s @
               [\<lparr>da_UserID = uid, da_RequestAt = now3, da_Duration = n * Minute\<rparr>]
         \<and> motorQueue (after (EnqueueMotorRequest_mqtt now1 now2 now3 now4 db_ok c s)) =
             motorQueue s @ [\<lparr>UserID = 0, RequestAt = now4, Duration = n * Minute\<rparr>]"
      using h by (intro exI [of _ n] exI [of _ uid]) (simp add: r)
  qed
  have f: "ShouldBindJSON_duration (body c) = Inr m
        \<and> totalMotorTime (quota_window now1 now2 s) + m * Minute \<le>s motorQuota
        \<and> Get c ''userID'' = Some (VUint u) \<longrightarrow>
      EnqueueMotorRequest_mqtt now1 now2 now3 now4 False c s =
        \<lparr>reply = JSON 500 [(''error'', S ''failed to log request'')],
         trace = [DB_Create \<lparr>da_UserID = u, da_RequestAt = now3,
                    da_Duration = m * Minute\<rparr> False],
         after = quota_window now1 now2 s\<rparr>"
    by (simp add: EnqueueMotorRequest_mqtt_def Let_def not_sless_iff [symmetric])
  from a f Enqueue_mqtt_db_fails [of now1 now2 now3 now4 c s] show ?thesis by blast
qed

theorem audit_before_enqueue_witness:
  "reply (EnqueueMotorRequest_mqtt 10 11 12 13 True ctx10 (init 0 [])) =
     JSON 200 [(''message'', S ''Request queued'')]
   \<and> ShouldBindJSON_duration (body ctx10) = Inr 10
   \<and> totalMotorTime (quota_window 10 11 (init 0 [])) + 10 * Minute \<le>s motorQuota
   \<and> Get ctx10 ''userID'' = Some (VUint 7)
   \<and> trace (EnqueueMotorRequest_mqtt 10 11 12 13 True ctx10 (init 0 [])) =
       [DB_Create \<lparr>da_UserID = 7, da_RequestAt = 12, da_Duration = 10 * Minute\<rparr> True,
        ChanSend \<lparr>UserID = 0, RequestAt = 13, Duration = 10 * Minute\<rparr>]
   \<and> EnqueueMotorRequest_mqtt 10 11 12 13 False ctx10 (init 0 []) =
       \<lparr>reply = JSON 500 [(''error'', S ''failed to log request'')],
        trace = [DB_Create \<lparr>da_UserID = 7, da_RequestAt = 12,
                   da_Duration = 10 * Minute\<rparr> False],
        after = init 0 []\<rparr>"
  using audit_before_enqueue [where ?now1.0 = 10 and ?now2.0 = 11 and ?now3.0 = 12
      and ?now4.0 = 13 and db_ok = True and c = ctx10 and s = "init 0 []"
      and b = "[(''message'', S ''Request queued'')]" and m = 10 and u = 7]
  by (simp add: ctx10_def eval_defs)

subsection \<open>The user id of the queued request\<close>

text \<open>
  Claim C10. In both revisions the request that an admission puts on the queue has
  \<open>UserID\<close> 0; in the logging revision the audit record of the same admission carries
  the user id that the context holds.
\<close>

theorem queued_user_id_zero:
  "(reply (EnqueueMotorRequest now1 now2 now3 c s) = JSON 200 b \<longrightarrow>
      (\<exists>req. motorQueue (after (EnqueueMotorRequest now1 now2 now3 c s)) = motorQueue s @ [req]
         \<and> UserID req = 0))
   \<and> (reply (EnqueueMotorRequest_mqtt now1 now2 now3 now4 db_ok c s) = JSON 200 b' \<longrightarrow>
      (\<exists>req e. motorQueue (after (EnqueueMotorRequest_mqtt now1 now2 now3 now4 db_ok c s)) =
             motorQueue s @ [req]
         \<and> UserID req = 0
         \<and> db_device_activations
               (after (EnqueueMotorRequest_mqtt now1 now2 now3 now4 db_ok c s)) =
             db_device_activations s @ [e]
         \<and> Get c ''userID'' = Some (VUint (da_UserID e))))"
proof -
  have a: "reply (EnqueueMotorRequest now1 now2 now3 c s) = JSON 200 b \<longrightarrow>
      (\<exists>req. motorQueue (after (EnqueueMotorRequest now1 now2 now3 c s)) = motorQueue s @ [req]
         \<and> UserID req = 0)"
  proof
    assume "reply (EnqueueMotorRequest now1 now2 now3 c s) = JSON 200 b"
    from Enqueue_200D [OF this] obtain n where
      "EnqueueMotorRequest now1 now2 now3 c s =
              \<lparr>reply = JSON 200 [(''message'', S ''Request queued'')],
               trace = [ChanSend \<lparr>UserID = 0, RequestAt = now3, Duration = n * Second\<rparr>],
               after = (quota_window now1 now2 s)
                 \<lparr>motorQueue := motorQueue s @
                    [\<lparr>UserID = 0, RequestAt = now3, Duration = n * Second\<rparr>]\<rparr>\<rparr>"
      by blast
    then show "\<exists>req. motorQueue (after (EnqueueMotorRequest now1 now2 now3 c s)) =
          motorQueue s @ [req] \<and> UserID req = 0"
      by simp
  qed
  have b: "reply (EnqueueMotorRequest_mqtt now1 now2 now3 now4 db_ok c s) = JSON 200 b' \<longrightarrow>
      (\<exists>req e. motorQueue (after (EnqueueMotorRequest_mqtt now1 now2 now3 now4 db_ok c s)) =
             motorQueue s @ [req]
         \<and> UserID req = 0
         \<and> db_device_activations
               (after (EnqueueMotorRequest_mqtt now1 now2 now3 now4 db_ok c s)) =
             db_device_activations s @ [e]
         \<and> Get c ''userID'' = Some (VUint (da_UserID e)))"
  proof
    assume "reply (EnqueueMotorRequest_mqtt now1 now2 now3 now4 db_ok c s) = JSON 200 b'"
    from Enqueue_mqtt_200D [OF this] obtain n uid where
      h: "Get c ''userID'' = Some (VUint uid)"
      and r: "EnqueueMotorRequest_mqtt now1 now2 now3 now4 db_ok c s =
              \<lparr>reply = JSON 200 [(''message'', S ''Request queued'')],
               trace = [DB_Create \<lparr>da_UserID = uid, da_RequestAt = now3,
                          da_Duration = n * Minute\<rparr> True,
                        ChanSend \<lparr>UserID = 0, RequestAt = now4, Duration = n * Minute\<rparr>],
               after = (quota_window now1 now2 s)
                 \<lparr>motorQueue := motorQueue s @
                    [\<lparr>UserID = 0, RequestAt = now4, Duration = n * Minute\<rparr>],
                  db_device_activations := db_device_activations s @
                    [\<lparr>da_UserID = uid, da_RequestAt = now3, da_Duration = n * Minute\<rparr>]\<rparr>\<rparr>"
      by blast
    show "\<exists>req e. motorQueue (after (EnqueueMotorRequest_mqtt now1 now2 now3 now4 db_ok c s)) =
             motorQueue s @ [req]
         \<and> UserID req = 0
         \<and> db_device_activations
               (after (EnqueueMotorRequest_mqtt now1 now2 now3 now4 db_ok c s)) =
             db_device_activations s @ [e]
         \<and> Get c ''userID'' = Some (VUint (da_UserID e))"
      using h
      by (intro exI [of _ "\<lparr>UserID = 0, RequestAt = now4, Duration = n * Minute\<rparr>"]
          exI [of _ "\<lparr>da_UserID = uid, da_RequestAt = now3, da_Duration = n * Minute\<rparr>"])
        (simp add: r)
  qed
  from a b show ?thesis by blast
qed

theorem queued_user_id_zero_witness:
  "reply (EnqueueMotorRequest 10 11 12 ctx10 (init 0 [])) =
     JSON 200 [(''message'', S ''Request queued'')]
   \<and> reply (EnqueueMotorRequest_mqtt 10 11 12 13 True ctx10 (init 0 [])) =
     JSON 200 [(''message'', S ''Request queued'')]
   \<and> Get ctx10 ''userID'' = Some (VUint 7)
   \<and> map UserID (motorQueue (after (EnqueueMotorRequest 10 11 12 ctx10 (init 0 [])))) = [0]
   \<and> map UserID
        (motorQueue (after (EnqueueMotorRequest_mqtt 10 11 12 13 True ctx10 (init 0 [])))) = [0]
   \<and> map da_UserID (db_device_activations
        (after (EnqueueMotorRequest_mqtt 10 11 12 13 True ctx10 (init 0 [])))) = [7]"
  using queued_user_id_zero [where ?now1.0 = 10 and ?now2.0 = 11 and ?now3.0 = 12
      and ?now4.0 = 13 and db_ok = True and c = ctx10 and s = "init 0 []"
      and b = "[(''message'', S ''Request queued'')]"
      and b' = "[(''message'', S ''Request queued'')]"]
  by (simp add: ctx10_def eval_defs)


end
